theory Spec2Isabelle
  imports Complex_Main "HOL-Library.Char_ord" "HOL-Library.List_Lexorder"
begin

section \<open>The benchmark service of run\_benchmark.cpp\<close>

text \<open>
  The development embeds \<^verbatim>\<open>BenchmarkService::collectMetrics\<close> and
  \<^verbatim>\<open>BenchmarkService::computeBenchmark\<close>. The planners, the planning scene, the
  clock and the file system are collaborators of the service; they enter the model as
  fields of records, and every definition below follows the statements of the source.
\<close>

subsection \<open>Values of type double\<close>

text \<open>
  A finite \<^verbatim>\<open>double\<close> is idealised as a real number: rounding and overflow are not
  modelled, and the collaborators are taken to return finite values. The one operation of
  the source that leaves the finite values is a division whose divisor can be zero, so a
  quotient is a value of \<open>double\<close>, which has the IEEE results of such a division.
\<close>

datatype double = Finite real | PosInf | NegInf | NaN

definition fdiv :: "real \<Rightarrow> real \<Rightarrow> double" where
  \<comment> \<open>\<^verbatim>\<open>x / y\<close> on doubles; a zero divisor is taken as \<^verbatim>\<open>+0.0\<close>\<close>
  "fdiv x y =
     (if y \<noteq> 0 then Finite (x / y)
      else if x = 0 then NaN
      else if 0 < x then PosInf else NegInf)"

fun dgreater :: "double \<Rightarrow> real \<Rightarrow> bool" where
  \<comment> \<open>\<^verbatim>\<open>d > r\<close>: every comparison with NaN is false\<close>
  "dgreater (Finite x) r = (x > r)"
| "dgreater PosInf r = True"
| "dgreater NegInf r = False"
| "dgreater NaN r = False"

fun dless :: "double \<Rightarrow> real \<Rightarrow> bool" where
  \<comment> \<open>\<^verbatim>\<open>d < r\<close>\<close>
  "dless (Finite x) r = (x < r)"
| "dless PosInf r = False"
| "dless NegInf r = True"
| "dless NaN r = False"

fun acos_d :: "double \<Rightarrow> real" where
  \<comment> \<open>\<^verbatim>\<open>acos\<close>; the source calls it on values strictly inside (-1, 1) only\<close>
  "acos_d (Finite x) = arccos x"
| "acos_d _ = 0"

subsection \<open>The collaborators\<close>

text \<open>
  \<open>'st\<close> is the type of kinematic states. The scene gives the distance between two
  states, the unpadded collision check and the unpadded distance to collision.
  \<^verbatim>\<open>boost::lexical_cast<std::string>\<close> on a double and on a duration are kept as
  functions of the environment; on a \<^verbatim>\<open>bool\<close> it prints 1 or 0.
  \<open>stream_double\<close> is \<^verbatim>\<open>operator<<\<close> of a stream on a double, \<open>getName\<close> the
  name of the scene, \<open>getHostname\<close> the host name (empty when \<^verbatim>\<open>gethostname\<close>
  fails), \<open>startTime\<close> the start of the run as \<^verbatim>\<open>to_iso_extended_string\<close> prints it,
  \<open>duration\<close> the seconds the trials took, and \<open>ofstream_open\<close> tells whether a
  \<^verbatim>\<open>std::ofstream\<close> on a file name opens.
\<close>

record 'st env =
  distance :: "'st \<Rightarrow> 'st \<Rightarrow> real"
  checkCollisionUnpadded :: "'st \<Rightarrow> bool"
  distanceToCollisionUnpadded :: "'st \<Rightarrow> real"
  lexical_cast_double :: "double \<Rightarrow> string"
  lexical_cast_duration :: "real \<Rightarrow> string"
  stream_double :: "real \<Rightarrow> string"
  getName :: string
  getHostname :: string
  startTime :: string
  duration :: real
  ofstream_open :: "string \<Rightarrow> bool"

definition lexical_cast_bool :: "bool \<Rightarrow> string" where
  "lexical_cast_bool b = (if b then ''1'' else ''0'')"

text \<open>
  One segment of \<^verbatim>\<open>mp_res\<close>: the states that
  \<^verbatim>\<open>convertToKinematicStates\<close> produces for \<^verbatim>\<open>trajectory[j]\<close>, with
  \<^verbatim>\<open>description[j]\<close> and \<^verbatim>\<open>processing_time[j]\<close> (in seconds). The three
  vectors of the message are read at the same index \<open>j\<close>, so the response is the list of
  these triples.
\<close>

record 'st segment =
  states :: "'st list"
  description :: string
  processing_time :: real

type_synonym 'st response = "'st segment list"

subsection \<open>std::map and std::set over strings\<close>

text \<open>
  A \<^verbatim>\<open>std::map<std::string, std::string>\<close> is the list of its entries in key order,
  a \<^verbatim>\<open>std::set<std::string>\<close> the list of its elements in order.
\<close>

type_synonym rundata = "(string \<times> string) list"

fun assign :: "string \<Rightarrow> string \<Rightarrow> rundata \<Rightarrow> rundata" where
  \<comment> \<open>\<^verbatim>\<open>m[k] = v\<close>\<close>
  "assign k v [] = [(k, v)]"
| "assign k v ((k', v') # m) =
     (if k = k' then (k, v) # m
      else if k < k' then (k, v) # (k', v') # m
      else (k', v') # assign k v m)"

definition find_key :: "rundata \<Rightarrow> string \<Rightarrow> string option" where
  \<comment> \<open>\<^verbatim>\<open>m.find(k)\<close>, \<open>None\<close> for \<^verbatim>\<open>m.end()\<close>\<close>
  "find_key m k = map_of m k"

definition set_insert :: "string \<Rightarrow> string list \<Rightarrow> string list" where
  \<comment> \<open>\<^verbatim>\<open>s.insert(x)\<close>\<close>
  "set_insert x s = insort_insert x s"

subsection \<open>collectMetrics\<close>

fun length_loop :: "'st env \<Rightarrow> 'st list \<Rightarrow> real \<Rightarrow> real" where
  \<comment> \<open>the loop over \<open>k \<ge> 1\<close> that adds \<^verbatim>\<open>p[k-1]->distance(*p[k])\<close> to \<open>L\<close>\<close>
  "length_loop e (s0 # s1 # p) L = length_loop e (s1 # p) (L + distance e s0 s1)"
| "length_loop e _ L = L"

fun collision_loop :: "'st env \<Rightarrow> 'st list \<Rightarrow> bool \<times> real \<Rightarrow> bool \<times> real" where
  \<comment> \<open>the loop over all \<open>k\<close> that updates \<open>correct\<close> and adds \<open>d\<close> to \<open>clearance\<close>\<close>
  "collision_loop e [] (correct, clearance) = (correct, clearance)"
| "collision_loop e (s # p) (correct, clearance) =
     collision_loop e p
       (if checkCollisionUnpadded e s then False else correct,
        clearance + distanceToCollisionUnpadded e s)"

fun smoothness_loop :: "'st env \<Rightarrow> 'st list \<Rightarrow> real \<Rightarrow> real \<Rightarrow> real" where
  \<comment> \<open>the loop over \<open>k \<ge> 2\<close>; the list starts at \<open>p[k-2]\<close>, \<open>a\<close> is carried along\<close>
  "smoothness_loop e (s0 # s1 # s2 # p) a smoothness =
     (let b = distance e s1 s2;
          cdist = distance e s0 s2;
          acosValue = fdiv (a * a + b * b - cdist * cdist) (2 * a * b);
          smoothness' =
            (if dgreater acosValue (- 1) \<and> dless acosValue 1 then
               (let angle = pi - acos_d acosValue;
                    u = 2 * angle
                in smoothness + u * u)
             else smoothness)
      in smoothness_loop e (s1 # s2 # p) b smoothness')"
| "smoothness_loop e _ a smoothness = smoothness"

definition segment_length :: "'st env \<Rightarrow> 'st list \<Rightarrow> real" where
  "segment_length e p = length_loop e p 0"

definition segment_correct :: "'st env \<Rightarrow> 'st list \<Rightarrow> bool" where
  "segment_correct e p = fst (collision_loop e p (True, 0))"

definition segment_clearance :: "'st env \<Rightarrow> 'st list \<Rightarrow> double" where
  \<comment> \<open>\<^verbatim>\<open>clearance /= (double)p.size()\<close> after the loop\<close>
  "segment_clearance e p = fdiv (snd (collision_loop e p (True, 0))) (real (length p))"

definition segment_smoothness :: "'st env \<Rightarrow> 'st list \<Rightarrow> real" where
  "segment_smoothness e p =
     (if length p > 2 then
        smoothness_loop e p (distance e (p ! 0) (p ! 1)) 0 / real (length p)
      else 0)"

definition record_segment :: "'st env \<Rightarrow> rundata \<Rightarrow> 'st segment \<Rightarrow> rundata" where
  \<comment> \<open>the five assignments to \<open>rundata\<close> at the end of the body of the loop over \<open>j\<close>\<close>
  "record_segment e rundata seg =
     (let p = states seg;
          d = description seg;
          r1 = assign (''path_'' @ d @ ''_correct BOOLEAN'')
                 (lexical_cast_bool (segment_correct e p)) rundata;
          r2 = assign (''path_'' @ d @ ''_length REAL'')
                 (lexical_cast_double e (Finite (segment_length e p))) r1;
          r3 = assign (''path_'' @ d @ ''_clearance REAL'')
                 (lexical_cast_double e (segment_clearance e p)) r2;
          r4 = assign (''path_'' @ d @ ''_smoothness REAL'')
                 (lexical_cast_double e (Finite (segment_smoothness e p))) r3
      in assign (''path_'' @ d @ ''_time REAL'')
           (lexical_cast_duration e (processing_time seg)) r4)"

fun segments_loop :: "'st env \<Rightarrow> 'st response \<Rightarrow> rundata \<times> real \<Rightarrow> rundata \<times> real" where
  \<comment> \<open>the loop over \<open>j\<close>; the second component is \<open>process_time\<close>\<close>
  "segments_loop e [] (rundata, process_time) = (rundata, process_time)"
| "segments_loop e (seg # segs) (rundata, process_time) =
     segments_loop e segs (record_segment e rundata seg, process_time - processing_time seg)"

definition collectMetrics ::
  "'st env \<Rightarrow> rundata \<Rightarrow> 'st response \<Rightarrow> bool \<Rightarrow> real \<Rightarrow> rundata" where
  "collectMetrics e rundata mp_res solved total_time =
     (let r1 = assign ''total_time REAL'' (lexical_cast_double e (Finite total_time)) rundata;
          r2 = assign ''solved BOOLEAN'' (lexical_cast_bool solved) r1
      in if solved then
           (let (r3, process_time) = segments_loop e mp_res (r2, total_time);
                process_time' = (if process_time \<le> 0 then 0 else process_time)
            in assign ''process_time REAL'' (lexical_cast_double e (Finite process_time')) r3)
         else r2)"

subsection \<open>Requests, planners and the registry\<close>

record motion_plan_request =
  group_name :: string
  planner_id :: string
  allowed_planning_time :: real
  request_text :: string

record planner_interface_description =
  name :: string
  planner_ids :: "string list"

text \<open>
  The counts of the request are unsigned fields of the message; they are natural numbers
  here, and so are the \<^verbatim>\<open>std::size_t\<close> values computed from them.
\<close>

record request =
  planner_interfaces :: "planner_interface_description list"
  default_average_count :: nat
  average_count :: "nat list"
  motion_plan_request :: motion_plan_request
  filename :: string

text \<open>
  A planner of the registry. \<open>solve\<close> takes the request, the number of the trial (the
  value of \<open>progress\<close>, so that a planner may answer each call differently) and the
  current \<^verbatim>\<open>mp_res\<close>; it returns the result of \<^verbatim>\<open>solve\<close>, the new
  \<^verbatim>\<open>mp_res\<close> and the wall time measured around the call.
\<close>

record 'st planner =
  getDescription :: string
  canServiceRequest :: "motion_plan_request \<Rightarrow> bool"
  getPlanningAlgorithms :: "string list"
  solve :: "motion_plan_request \<Rightarrow> nat \<Rightarrow> 'st response \<Rightarrow> bool \<times> 'st response \<times> real"

text \<open>\<^verbatim>\<open>planner_interfaces_\<close>: the entries of the map in key order.\<close>

type_synonym 'st registry = "(string \<times> 'st planner) list"

text \<open>
  The vectors \<^verbatim>\<open>res.planner_interfaces\<close>, \<^verbatim>\<open>pi\<close>, \<^verbatim>\<open>planner_ids\<close>
  and \<^verbatim>\<open>average_count\<close> grow together, one element per accepted planner; a
  candidate is one such element of the four.
\<close>

record 'st candidate =
  c_name :: string
  c_pi :: "'st planner"
  c_planner_ids :: "string list"
  c_average_count :: nat

subsection \<open>computeBenchmark: which planners to test\<close>

fun found_loop :: "string \<Rightarrow> planner_interface_description list \<Rightarrow> nat \<Rightarrow> nat option" where
  \<comment> \<open>the search for \<open>found\<close>, from index \<open>i\<close> on; \<open>None\<close> is \<open>-1\<close>\<close>
  "found_loop nm [] i = None"
| "found_loop nm (d # ds) i = (if name d = nm then Some i else found_loop nm ds (Suc i))"

fun fnd_loop :: "string \<Rightarrow> string list \<Rightarrow> string \<Rightarrow> bool" where
  \<comment> \<open>the loop over \<open>q\<close> that sets \<open>fnd\<close>\<close>
  "fnd_loop g [] r = False"
| "fnd_loop g (k # known) r =
     (if k = r \<or> g @ ''['' @ k @ '']'' = r then True else fnd_loop g known r)"

fun ids_loop :: "string \<Rightarrow> string list \<Rightarrow> string list \<Rightarrow> string list \<Rightarrow> string list" where
  \<comment> \<open>the loop over \<open>k\<close> that pushes the known ids of the request\<close>
  "ids_loop g known [] ids = ids"
| "ids_loop g known (r # rs) ids =
     ids_loop g known rs (if fnd_loop g known r then ids @ [r] else ids)"

definition candidate_of :: "request \<Rightarrow> string \<times> 'st planner \<Rightarrow> 'st candidate option" where
  \<comment> \<open>the body of the loop over the registry; \<open>None\<close> when nothing is pushed\<close>
  "candidate_of req it =
     (let found = (if planner_interfaces req \<noteq> []
                   then found_loop (fst it) (planner_interfaces req) 0 else None)
      in if planner_interfaces req \<noteq> [] \<and> found = None then None
         else if canServiceRequest (snd it) (motion_plan_request req) then
           (let known = getPlanningAlgorithms (snd it);
                c = \<lparr>c_name = fst it, c_pi = snd it, c_planner_ids = [],
                     c_average_count = max 1 (default_average_count req)\<rparr>
            in case found of
                 None \<Rightarrow> Some (c\<lparr>c_planner_ids := known\<rparr>)
               | Some f \<Rightarrow>
                   if planner_ids (planner_interfaces req ! f) = []
                   then Some (c\<lparr>c_planner_ids := known\<rparr>)
                   else Some (c\<lparr>
                     c_average_count :=
                       (if length (average_count req) > f
                        then max 1 (average_count req ! f) else c_average_count c),
                     c_planner_ids :=
                       ids_loop (group_name (motion_plan_request req)) known
                         (planner_ids (planner_interfaces req ! f)) []\<rparr>))
         else None)"

fun registry_loop :: "request \<Rightarrow> 'st registry \<Rightarrow> 'st candidate list \<Rightarrow> 'st candidate list" where
  "registry_loop req [] cs = cs"
| "registry_loop req (it # its) cs =
     registry_loop req its (case candidate_of req it of None \<Rightarrow> cs | Some c \<Rightarrow> cs @ [c])"

fun totals_loop :: "'st candidate list \<Rightarrow> nat \<times> nat \<Rightarrow> nat \<times> nat" where
  \<comment> \<open>\<open>total_n_planners\<close> and \<open>total_n_runs\<close>\<close>
  "totals_loop [] (total_n_planners, total_n_runs) = (total_n_planners, total_n_runs)"
| "totals_loop (c # cs) (total_n_planners, total_n_runs) =
     totals_loop cs
       (total_n_planners + length (c_planner_ids c),
        total_n_runs + length (c_planner_ids c) * c_average_count c)"

subsection \<open>computeBenchmark: the trials\<close>

text \<open>
  The state of the loops: the progress counter, \<^verbatim>\<open>mp_res\<close>, and for the planner
  \<open>i\<close> at hand \<^verbatim>\<open>first[i]\<close> and \<^verbatim>\<open>res.responses[i]\<close>.
\<close>

record 'st trial_state =
  progress :: nat
  mp_res :: "'st response"
  first :: bool
  responses_i :: "'st response"

fun repetition_loop ::
  "'st env \<Rightarrow> 'st planner \<Rightarrow> motion_plan_request \<Rightarrow> nat \<Rightarrow> 'st trial_state
    \<Rightarrow> rundata list \<times> 'st trial_state" where
  \<comment> \<open>the loop over \<open>c\<close>; the count is the number of repetitions still to run\<close>
  "repetition_loop e p mp_req 0 st = ([], st)"
| "repetition_loop e p mp_req (Suc n) st =
     (let (solved, res', total_time) = solve p mp_req (Suc (progress st)) (mp_res st);
          run = collectMetrics e [] res' solved total_time;
          st' = st\<lparr>progress := Suc (progress st), mp_res := res',
                   first := (if solved \<and> first st then False else first st),
                   responses_i := (if solved \<and> first st then res' else responses_i st)\<rparr>;
          (runs, st'') = repetition_loop e p mp_req n st'
      in (run # runs, st''))"

fun algorithm_loop ::
  "'st env \<Rightarrow> 'st candidate \<Rightarrow> motion_plan_request \<Rightarrow> string list \<Rightarrow> 'st trial_state
    \<Rightarrow> rundata list list \<times> 'st trial_state" where
  \<comment> \<open>the loop over \<open>j\<close>; each round pushes its \<open>runs\<close> to \<open>data\<close>\<close>
  "algorithm_loop e c mp_req [] st = ([], st)"
| "algorithm_loop e c mp_req (a # ids) st =
     (let (runs, st') =
            repetition_loop e (c_pi c) (mp_req\<lparr>planner_id := a\<rparr>) (c_average_count c) st;
          (data, st'') = algorithm_loop e c mp_req ids st'
      in (runs # data, st''))"

fun planner_loop ::
  "'st env \<Rightarrow> motion_plan_request \<Rightarrow> 'st candidate list \<Rightarrow> nat \<times> 'st response
    \<Rightarrow> rundata list list \<times> 'st response list" where
  \<comment> \<open>the loop over \<open>i\<close>; the result is \<open>data\<close> and \<^verbatim>\<open>res.responses\<close>\<close>
  "planner_loop e mp_req [] (n, res) = ([], [])"
| "planner_loop e mp_req (c # cs) (n, res) =
     (let (data, st) = algorithm_loop e c mp_req (c_planner_ids c)
                         \<lparr>progress = n, mp_res = res, first = True, responses_i = []\<rparr>;
          (data', rs) = planner_loop e mp_req cs (progress st, mp_res st)
      in (data @ data', responses_i st # rs))"

subsection \<open>computeBenchmark: the report\<close>

function show_nat :: "nat \<Rightarrow> string" where
  \<comment> \<open>\<^verbatim>\<open>operator<<\<close> of a stream on a \<^verbatim>\<open>std::size_t\<close>: the decimal digits\<close>
  "show_nat n =
     (if n < 10 then [''0123456789'' ! n]
      else show_nat (n div 10) @ [''0123456789'' ! (n mod 10)])"
  by pat_completeness auto
termination
  by (relation "measure id") auto

declare show_nat.simps [simp del]

definition properties_of :: "rundata list \<Rightarrow> string list" where
  \<comment> \<open>\<open>propSeen\<close> after the two loops, which is also the vector \<open>properties\<close>\<close>
  "properties_of runs =
     fold (\<lambda>run propSeen. fold (\<lambda>mit propSeen. set_insert (fst mit) propSeen) run propSeen)
       runs []"

definition row_fields :: "string list \<Rightarrow> rundata \<Rightarrow> string list" where
  \<comment> \<open>what the loop over \<open>k\<close> prints before each \<^verbatim>\<open>"; "\<close>\<close>
  "row_fields properties run =
     map (\<lambda>k. case find_key run k of Some v \<Rightarrow> v | None \<Rightarrow> []) properties"

definition row_line :: "string list \<Rightarrow> rundata \<Rightarrow> string" where
  "row_line properties run = concat (map (\<lambda>v. v @ ''; '') (row_fields properties run))"

text \<open>The stream \<open>out\<close> is the list of its lines, one for each \<^verbatim>\<open>std::endl\<close>.\<close>

definition write_group :: "string \<Rightarrow> string \<Rightarrow> rundata list \<Rightarrow> string list" where
  \<comment> \<open>the body of the loop over \<open>p\<close>, for \<open>runs = data[ri]\<close>\<close>
  "write_group descr a runs =
     (let properties = properties_of runs
      in [descr @ ''_'' @ a, ''0 common properties'',
          show_nat (length properties) @ '' properties for each run'']
         @ properties
         @ [show_nat (length runs) @ '' runs'']
         @ map (row_line properties) runs
         @ [''.''])"

fun write_ids :: "string \<Rightarrow> string list \<Rightarrow> rundata list list \<Rightarrow> nat \<Rightarrow> string list \<times> nat" where
  \<comment> \<open>the loop over \<open>p\<close>, which also counts \<open>ri\<close> up\<close>
  "write_ids descr [] data ri = ([], ri)"
| "write_ids descr (a # ids) data ri =
     (let (rest, ri') = write_ids descr ids data (Suc ri)
      in (write_group descr a (data ! ri) @ rest, ri'))"

fun write_planners :: "'st candidate list \<Rightarrow> rundata list list \<Rightarrow> nat \<Rightarrow> string list" where
  \<comment> \<open>the loop over \<open>q\<close>\<close>
  "write_planners [] data ri = []"
| "write_planners (c # cs) data ri =
     (let (ls, ri') = write_ids (getDescription (c_pi c)) (c_planner_ids c) data ri
      in ls @ write_planners cs data ri')"

definition write_header :: "'st env \<Rightarrow> request \<Rightarrow> nat \<Rightarrow> string list" where
  "write_header e req total_n_planners =
     [''Experiment '' @ (if getName e = [] then ''NO_NAME'' else getName e),
      ''Running on '' @ (if getHostname e = [] then ''UNKNOWN'' else getHostname e),
      ''Starting at '' @ startTime e,
      ''<<<|'',
      ''ROS'',
      request_text (motion_plan_request req),
      ''|>>>'',
      stream_double e (allowed_planning_time (motion_plan_request req)) @ '' seconds per run'',
      stream_double e (duration e) @ '' seconds spent to collect the data'',
      show_nat total_n_planners @ '' planners'']"

datatype error_code = NOT_SET | SUCCESS

text \<open>
  What one call leaves behind: the value returned, the fields of \<open>res\<close>, and the lines
  of the file, if a file was opened and written.
\<close>

record 'st outcome =
  returned :: bool
  res_planner_interfaces :: "string list"
  res_responses :: "'st response list"
  res_filename :: string
  res_error_code :: error_code
  file_written :: "string list option"

definition computeBenchmark :: "'st env \<Rightarrow> 'st registry \<Rightarrow> request \<Rightarrow> 'st outcome" where
  "computeBenchmark e registry req =
     (let cands = registry_loop req registry []
      in if cands = [] then
           \<lparr>returned = False, res_planner_interfaces = [], res_responses = [],
            res_filename = [], res_error_code = NOT_SET, file_written = None\<rparr>
         else
           (let (total_n_planners, total_n_runs) = totals_loop cands (0, 0);
                (data, rs) = planner_loop e (motion_plan_request req) cands (0, []);
                fname = (if filename req = []
                         then ''moveit_benchmarks_'' @ getHostname e @ ''_'' @ startTime e @ ''.log''
                         else filename req);
                out = write_header e req total_n_planners @ write_planners cands data 0
            in \<lparr>returned = True, res_planner_interfaces = map c_name cands,
                res_responses = rs, res_filename = fname, res_error_code = SUCCESS,
                file_written = (if ofstream_open e fname then Some out else None)\<rparr>))"

subsection \<open>The quantities of the specification\<close>

text \<open>
  The contribution of one triangle with sides \<open>a\<close>, \<open>b\<close>, \<open>c\<close> to the smoothness, as
  the specification words it. The quotient \<open>(a\<^sup>2 + b\<^sup>2 - c\<^sup>2) / (2ab)\<close> has no value when
  \<open>2ab = 0\<close>; it is then not inside (-1, 1).
\<close>

definition spec_contribution :: "real \<Rightarrow> real \<Rightarrow> real \<Rightarrow> real" where
  "spec_contribution a b c =
     (if 2 * a * b \<noteq> 0 \<and> - 1 < (a\<^sup>2 + b\<^sup>2 - c\<^sup>2) / (2 * a * b)
           \<and> (a\<^sup>2 + b\<^sup>2 - c\<^sup>2) / (2 * a * b) < 1
      then (2 * (pi - arccos ((a\<^sup>2 + b\<^sup>2 - c\<^sup>2) / (2 * a * b))))\<^sup>2
      else 0)"

definition spec_smoothness :: "'st env \<Rightarrow> 'st list \<Rightarrow> real" where
  "spec_smoothness e p =
     (if length p < 3 then 0
      else (\<Sum>i = 2..<length p.
              spec_contribution (distance e (p ! (i - 2)) (p ! (i - 1)))
                (distance e (p ! (i - 1)) (p ! i)) (distance e (p ! (i - 2)) (p ! i)))
           / real (length p))"

text \<open>
  The algorithm ids of a planner as the specification resolves them: \<open>spec_requested\<close>
  is what the request names for the planner, \<open>spec_matches\<close> the test of one name against
  the declared ids.
\<close>

definition spec_requested :: "request \<Rightarrow> string \<Rightarrow> string list" where
  "spec_requested req nm =
     (case find (\<lambda>d. name d = nm) (planner_interfaces req) of
        None \<Rightarrow> [] | Some d \<Rightarrow> planner_ids d)"

definition spec_matches :: "string \<Rightarrow> string list \<Rightarrow> string \<Rightarrow> bool" where
  "spec_matches g known r = list_ex (\<lambda>k. r = k \<or> r = g @ ''['' @ k @ '']'') known"

definition spec_algorithm_ids :: "request \<Rightarrow> string \<Rightarrow> string list \<Rightarrow> string list" where
  "spec_algorithm_ids req nm known =
     (if spec_requested req nm = [] then known
      else filter (spec_matches (group_name (motion_plan_request req)) known)
             (spec_requested req nm))"

text \<open>
  The repetitions of a planner as the specification states them: the override of the
  request when there is one for the planner, the default otherwise.
\<close>

definition spec_repetitions :: "request \<Rightarrow> string \<Rightarrow> nat" where
  "spec_repetitions req nm =
     (case found_loop nm (planner_interfaces req) 0 of
        None \<Rightarrow> default_average_count req
      | Some f \<Rightarrow> if f < length (average_count req) then average_count req ! f
                  else default_average_count req)"

text \<open>The name of the report file, \<^verbatim>\<open>res.filename\<close>.\<close>

definition report_name :: "'st env \<Rightarrow> request \<Rightarrow> string" where
  "report_name e req =
     (if filename req = []
      then ''moveit_benchmarks_'' @ getHostname e @ ''_'' @ startTime e @ ''.log''
      else filename req)"

text \<open>The groups of the report in the order of the loops, and the repetitions of each.\<close>

definition group_names :: "'st candidate list \<Rightarrow> (string \<times> string) list" where
  "group_names cands =
     concat (map (\<lambda>c. map (\<lambda>a. (getDescription (c_pi c), a)) (c_planner_ids c)) cands)"

definition group_counts :: "'st candidate list \<Rightarrow> nat list" where
  "group_counts cands =
     concat (map (\<lambda>c. replicate (length (c_planner_ids c)) (c_average_count c)) cands)"

subsection \<open>A scene, two planners and some requests\<close>

text \<open>
  States are numbered; the states 0, 1, 2 form a triangle with sides 3, 4 and 5.
  Planner A declares the algorithms x and y and solves x only; planner B declares z and
  solves it.
\<close>

definition test_env :: "nat env" where
  "test_env =
     \<lparr>distance = (\<lambda>s t. if s = t then 0 else if s + t = 1 then 3 else if s + t = 3 then 4 else 5),
      checkCollisionUnpadded = (\<lambda>s. False),
      distanceToCollisionUnpadded = (\<lambda>s. 1 + real s),
      lexical_cast_double = (\<lambda>d. case d of Finite r \<Rightarrow> (if r = 0 then ''0'' else ''r'') | _ \<Rightarrow> ''nan''),
      lexical_cast_duration = (\<lambda>r. ''t''),
      stream_double = (\<lambda>r. ''d''),
      getName = ''scene'',
      getHostname = ''host'',
      startTime = ''now'',
      duration = 1,
      ofstream_open = (\<lambda>f. True)\<rparr>"

definition test_response :: "nat response" where
  "test_response = [\<lparr>states = [0, 1, 2], description = ''plan'', processing_time = 1 / 2\<rparr>]"

definition planner_A :: "nat planner" where
  "planner_A =
     \<lparr>getDescription = ''A'',
      canServiceRequest = (\<lambda>r. True),
      getPlanningAlgorithms = [''x'', ''y''],
      solve = (\<lambda>r n res. if planner_id r = ''x'' then (True, test_response, 1) else (False, res, 1))\<rparr>"

definition planner_B :: "nat planner" where
  "planner_B =
     \<lparr>getDescription = ''B'',
      canServiceRequest = (\<lambda>r. True),
      getPlanningAlgorithms = [''z''],
      solve = (\<lambda>r n res. (True, test_response, 2))\<rparr>"

definition test_registry :: "nat registry" where
  "test_registry = [(''A'', planner_A), (''B'', planner_B)]"

definition test_problem :: motion_plan_request where
  "test_problem =
     \<lparr>group_name = ''arm'', planner_id = [], allowed_planning_time = 1, request_text = ''problem''\<rparr>"

definition request_all :: request where
  \<comment> \<open>no restriction, two repetitions\<close>
  "request_all =
     \<lparr>planner_interfaces = [], default_average_count = 2, average_count = [],
      motion_plan_request = test_problem, filename = ''out.log''\<rparr>"

definition request_A :: request where
  \<comment> \<open>planner A with no algorithm named, an override of 5, a default of 2\<close>
  "request_A =
     \<lparr>planner_interfaces = [\<lparr>name = ''A'', planner_ids = []\<rparr>],
      default_average_count = 2, average_count = [5],
      motion_plan_request = test_problem, filename = ''out.log''\<rparr>"

definition request_ids :: request where
  \<comment> \<open>planner A with three names, the last of them unknown, and an override of 3\<close>
  "request_ids =
     \<lparr>planner_interfaces = [\<lparr>name = ''A'', planner_ids = [''arm[y]'', ''x'', ''w'']\<rparr>],
      default_average_count = 1, average_count = [3],
      motion_plan_request = test_problem, filename = ''out.log''\<rparr>"

definition request_none :: request where
  \<comment> \<open>a planner that is not in the registry\<close>
  "request_none =
     \<lparr>planner_interfaces = [\<lparr>name = ''C'', planner_ids = []\<rparr>],
      default_average_count = 1, average_count = [],
      motion_plan_request = test_problem, filename = ''out.log''\<rparr>"

text \<open>The same scene on a file system where no file can be opened.\<close>

definition closed_env :: "nat env" where
  "closed_env = test_env\<lparr>ofstream_open := (\<lambda>f. False)\<rparr>"

definition cand_A :: "string list \<Rightarrow> nat \<Rightarrow> nat candidate" where
  "cand_A ids n = \<lparr>c_name = ''A'', c_pi = planner_A, c_planner_ids = ids, c_average_count = n\<rparr>"

definition cand_B :: "nat candidate" where
  "cand_B = \<lparr>c_name = ''B'', c_pi = planner_B, c_planner_ids = [''z''], c_average_count = 2\<rparr>"

definition test_data :: "rundata list list" where
  \<comment> \<open>the records of the unrestricted request\<close>
  "test_data =
     fst (planner_loop test_env test_problem [cand_A [''x'', ''y''] 2, cand_B] (0, []))"

text \<open>
  A request that names planner A with one algorithm id that the planner does not
  declare, and a planner M with the algorithm m that solves its first trial only.
\<close>

definition request_w :: request where
  "request_w =
     \<lparr>planner_interfaces = [\<lparr>name = ''A'', planner_ids = [''w'']\<rparr>],
      default_average_count = 1, average_count = [],
      motion_plan_request = test_problem, filename = ''out.log''\<rparr>"

definition planner_M :: "nat planner" where
  "planner_M =
     \<lparr>getDescription = ''M'',
      canServiceRequest = (\<lambda>r. True),
      getPlanningAlgorithms = [''m''],
      solve = (\<lambda>r n res. if n = 1 then (True, test_response, 1) else (False, res, 1))\<rparr>"

definition cand_M :: "nat candidate" where
  "cand_M = \<lparr>c_name = ''M'', c_pi = planner_M, c_planner_ids = [''m''], c_average_count = 2\<rparr>"

definition mixed_data :: "rundata list list" where
  \<comment> \<open>the records of planner M: one solved and one unsolved trial in one group\<close>
  "mixed_data = fst (planner_loop test_env test_problem [cand_M] (0, []))"

section \<open>Properties of collectMetrics\<close>

subsection \<open>Maps and accumulators\<close>

lemma map_of_assign: "map_of (assign k v m) k' = (if k' = k then Some v else map_of m k')"
  by (induction m) auto

lemma find_key_assign:
  "find_key (assign k v m) k' = (if k' = k then Some v else find_key m k')"
  by (simp add: find_key_def map_of_assign)

lemma collision_loop_snd:
  "snd (collision_loop e p (c, acc)) = acc + sum_list (map (distanceToCollisionUnpadded e) p)"
  by (induction p arbitrary: c acc) auto

lemma segments_loop_snd:
  "snd (segments_loop e segs (rd, pt)) = pt - sum_list (map processing_time segs)"
  by (induction segs arbitrary: rd pt) auto

text \<open>Each metric of a segment is recorded under its own key.\<close>

lemma record_segment_keys:
  "find_key (record_segment e rundata seg) (''path_'' @ description seg @ ''_correct BOOLEAN'')
     = Some (lexical_cast_bool (segment_correct e (states seg)))"
  "find_key (record_segment e rundata seg) (''path_'' @ description seg @ ''_length REAL'')
     = Some (lexical_cast_double e (Finite (segment_length e (states seg))))"
  "find_key (record_segment e rundata seg) (''path_'' @ description seg @ ''_clearance REAL'')
     = Some (lexical_cast_double e (segment_clearance e (states seg)))"
  "find_key (record_segment e rundata seg) (''path_'' @ description seg @ ''_smoothness REAL'')
     = Some (lexical_cast_double e (Finite (segment_smoothness e (states seg))))"
  "find_key (record_segment e rundata seg) (''path_'' @ description seg @ ''_time REAL'')
     = Some (lexical_cast_duration e (processing_time seg))"
  by (simp_all add: record_segment_def Let_def find_key_assign)

subsection \<open>Clearance\<close>

text \<open>
  C10. The clearance of a segment is the sum of the distances to collision of its
  waypoints divided by the number of waypoints, and nothing guards the division: for a
  segment with at least one waypoint the quotient is the finite mean, for a segment
  without waypoints it is 0/0, which is NaN.
\<close>

theorem clearance_unguarded_quotient:
  "segment_clearance e p
     = fdiv (sum_list (map (distanceToCollisionUnpadded e) p)) (real (length p))
   \<and> (p \<noteq> [] \<longrightarrow>
        segment_clearance e p
          = Finite (sum_list (map (distanceToCollisionUnpadded e) p) / real (length p)))
   \<and> segment_clearance e [] = fdiv 0 0 \<and> fdiv 0 0 = NaN"
  by (simp add: segment_clearance_def collision_loop_snd fdiv_def)

theorem clearance_unguarded_quotient_witness:
  "[0, 1, 2] \<noteq> ([] :: nat list) \<and> segment_clearance test_env [0, 1, 2] = Finite 2
   \<and> segment_clearance test_env [] = NaN"
  using clearance_unguarded_quotient [of test_env "[0, 1, 2]"]
    clearance_unguarded_quotient [of test_env "[]"]
  by (simp add: test_env_def fdiv_def)

subsection \<open>Residual processing time\<close>

text \<open>
  C7. The residual processing time that a solved trial records under
  \<open>process_time REAL\<close> is the total wall time of the trial minus the sum of the
  processing times of the segments, floored at 0; it is never negative. (A trial that is
  not solved records no residual time at all.)
\<close>

theorem residual_time_floored:
  "find_key (collectMetrics e rundata res True total_time) ''process_time REAL''
     = Some (lexical_cast_double e
         (Finite (max 0 (total_time - sum_list (map processing_time res)))))
   \<and> 0 \<le> max 0 (total_time - sum_list (map processing_time res))
   \<and> find_key (collectMetrics e [] res False total_time) ''process_time REAL'' = None"
proof -
  let ?r2 = "assign ''solved BOOLEAN'' (lexical_cast_bool True)
      (assign ''total_time REAL'' (lexical_cast_double e (Finite total_time)) rundata)"
  obtain r3 pt where sl: "segments_loop e res (?r2, total_time) = (r3, pt)"
    by (cases "segments_loop e res (?r2, total_time)")
  have pt: "pt = total_time - sum_list (map processing_time res)"
    using segments_loop_snd [of e res ?r2 total_time] sl by simp
  have "(if pt \<le> 0 then 0 else pt) = max 0 pt"
    by (simp add: max_def)
  moreover have "find_key (collectMetrics e [] res False total_time) ''process_time REAL'' = None"
    by (simp add: collectMetrics_def Let_def find_key_def lexical_cast_bool_def)
  ultimately show ?thesis
    by (simp add: collectMetrics_def Let_def sl find_key_assign pt)
qed

theorem residual_time_floored_witness:
  "find_key (collectMetrics test_env [] test_response True 2) ''process_time REAL'' = Some ''r''
   \<and> find_key (collectMetrics test_env [] test_response True (1 / 4)) ''process_time REAL''
       = Some ''0''"
  using residual_time_floored [of test_env "[]" test_response 2]
    residual_time_floored [of test_env "[]" test_response "1 / 4"]
  by (simp add: test_env_def test_response_def)

subsection \<open>Smoothness\<close>

lemma smoothness_loop_step:
  "smoothness_loop e (s0 # s1 # s2 # p) a sm =
     smoothness_loop e (s1 # s2 # p) (distance e s1 s2)
       (sm + spec_contribution a (distance e s1 s2) (distance e s0 s2))"
proof (cases "2 * a * distance e s1 s2 = 0")
  case True
  then show ?thesis
    by (auto simp add: Let_def fdiv_def spec_contribution_def)
next
  case False
  then show ?thesis
    by (simp add: Let_def fdiv_def spec_contribution_def power2_eq_square algebra_simps)
qed

lemma sum_from_2_shift:
  "(\<Sum>i = 2..<Suc (Suc (Suc n)). f i) = f 2 + (\<Sum>i = 2..<Suc (Suc n). f (Suc i))"
  for f :: "nat \<Rightarrow> real"
proof -
  have "(2::nat) < Suc (Suc (Suc n))"
    by simp
  then have "(\<Sum>i = 2..<Suc (Suc (Suc n)). f i) = f 2 + (\<Sum>i = Suc 2..<Suc (Suc (Suc n)). f i)"
    by (rule sum.atLeast_Suc_lessThan)
  also have "(\<Sum>i = Suc 2..<Suc (Suc (Suc n)). f i) = (\<Sum>i = 2..<Suc (Suc n). f (Suc i))"
    by (rule sum.shift_bounds_Suc_ivl)
  finally show ?thesis .
qed

lemma smoothness_loop_sum:
  "smoothness_loop e (s0 # s1 # p) (distance e s0 s1) sm =
     sm + (\<Sum>i = 2..<length (s0 # s1 # p).
             spec_contribution
               (distance e ((s0 # s1 # p) ! (i - 2)) ((s0 # s1 # p) ! (i - 1)))
               (distance e ((s0 # s1 # p) ! (i - 1)) ((s0 # s1 # p) ! i))
               (distance e ((s0 # s1 # p) ! (i - 2)) ((s0 # s1 # p) ! i)))"
proof (induction p arbitrary: s0 s1 sm)
  case Nil
  then show ?case by simp
next
  case (Cons s2 p)
  let ?f = "\<lambda>q i. spec_contribution (distance e (q ! (i - 2)) (q ! (i - 1)))
                (distance e (q ! (i - 1)) (q ! i)) (distance e (q ! (i - 2)) (q ! i))"
  have later: "(\<Sum>i = 2..<length (s1 # s2 # p). ?f (s0 # s1 # s2 # p) (Suc i))
      = (\<Sum>i = 2..<length (s1 # s2 # p). ?f (s1 # s2 # p) i)"
  proof (rule sum.cong [OF refl])
    fix x assume "x \<in> {2..<length (s1 # s2 # p)}"
    then obtain k where "x = Suc (Suc k)"
      by (metis atLeastLessThan_iff le_Suc_ex numeral_2_eq_2 add_Suc add_0)
    then show "?f (s0 # s1 # s2 # p) (Suc x) = ?f (s1 # s2 # p) x"
      by simp
  qed
  have split: "(\<Sum>i = 2..<length (s0 # s1 # s2 # p). ?f (s0 # s1 # s2 # p) i)
     = ?f (s0 # s1 # s2 # p) 2 + (\<Sum>i = 2..<length (s1 # s2 # p). ?f (s1 # s2 # p) i)"
    using sum_from_2_shift [of "?f (s0 # s1 # s2 # p)" "length p"] later by simp
  have first_triangle: "?f (s0 # s1 # s2 # p) 2
     = spec_contribution (distance e s0 s1) (distance e s1 s2) (distance e s0 s2)"
    by (simp add: numeral_2_eq_2)
  show ?case
    by (simp only: smoothness_loop_step Cons.IH split first_triangle add.assoc)
qed

text \<open>
  C2. The smoothness of a segment is 0 when the segment has fewer than 3 waypoints;
  otherwise it is the sum, over the waypoint indices \<open>i \<ge> 2\<close>, of the contribution of the
  triangle with sides \<open>a = dist(i-2, i-1)\<close>, \<open>b = dist(i-1, i)\<close>, \<open>c = dist(i-2, i)\<close>,
  divided by the number of waypoints. The contribution is \<open>(2 (\<pi> - arccos x))\<^sup>2\<close> for
  \<open>x = (a\<^sup>2 + b\<^sup>2 - c\<^sup>2) / (2ab)\<close> strictly inside (-1, 1), and nothing otherwise.
\<close>

theorem smoothness_formula: "segment_smoothness e p = spec_smoothness e p"
proof (cases p)
  case Nil
  then show ?thesis
    by (simp add: segment_smoothness_def spec_smoothness_def)
next
  case (Cons s0 q)
  show ?thesis
  proof (cases q)
    case Nil
    with Cons show ?thesis
      by (simp add: segment_smoothness_def spec_smoothness_def)
  next
    case (Cons s1 r)
    with \<open>p = s0 # q\<close> have p: "p = s0 # s1 # r"
      by simp
    show ?thesis
      unfolding p
      by (auto simp add: segment_smoothness_def spec_smoothness_def smoothness_loop_sum
          simp del: smoothness_loop.simps)
  qed
qed

theorem smoothness_formula_witness:
  "segment_smoothness test_env [0, 1, 2] = pi\<^sup>2 / 3 \<and> segment_smoothness test_env [0, 1] = 0"
  using smoothness_formula [of test_env "[0, 1, 2]"] smoothness_formula [of test_env "[0, 1]"]
  by (simp add: spec_smoothness_def spec_contribution_def test_env_def power2_eq_square)

section \<open>Properties of computeBenchmark\<close>

subsection \<open>The candidates\<close>

lemma set_registry_loop_acc:
  "set (registry_loop req reg cs)
     = set cs \<union> {c. \<exists>it \<in> set reg. candidate_of req it = Some c}"
  by (induction reg arbitrary: cs) (auto split: option.splits)

lemma set_registry_loop:
  "c \<in> set (registry_loop req reg []) \<longleftrightarrow> (\<exists>it \<in> set reg. candidate_of req it = Some c)"
  by (simp add: set_registry_loop_acc)

lemma found_loop_Some:
  "found_loop nm ds i = Some f \<Longrightarrow>
     \<exists>j < length ds. f = i + j \<and> name (ds ! j) = nm
       \<and> find (\<lambda>d. name d = nm) ds = Some (ds ! j)"
proof (induction ds arbitrary: i)
  case Nil
  then show ?case by simp
next
  case (Cons d ds)
  show ?case
  proof (cases "name d = nm")
    case True
    with Cons.prems show ?thesis by auto
  next
    case False
    with Cons.prems have "found_loop nm ds (Suc i) = Some f"
      by simp
    from Cons.IH [OF this] obtain j where "j < length ds" "f = Suc i + j"
      "name (ds ! j) = nm" "find (\<lambda>d. name d = nm) ds = Some (ds ! j)"
      by blast
    with False show ?thesis
      by (intro exI [of _ "Suc j"]) simp
  qed
qed

lemma found_loop_None: "found_loop nm ds i = None \<longleftrightarrow> nm \<notin> name ` set ds"
  by (induction ds arbitrary: i) auto

lemma found_loop_None_find:
  "found_loop nm ds i = None \<Longrightarrow> find (\<lambda>d. name d = nm) ds = None"
  by (induction ds arbitrary: i) (auto split: if_splits)

lemma fnd_loop_eq: "fnd_loop g known r = spec_matches g known r"
  by (induction known) (auto simp: spec_matches_def)

lemma ids_loop_eq: "ids_loop g known rs ids = ids @ filter (spec_matches g known) rs"
  by (induction rs arbitrary: ids) (auto simp: fnd_loop_eq)

lemma candidate_of_ids:
  assumes "candidate_of req (nm, pl) = Some c"
  shows "c_name c = nm \<and> c_pi c = pl
    \<and> c_planner_ids c = spec_algorithm_ids req nm (getPlanningAlgorithms pl)"
proof (cases "found_loop nm (planner_interfaces req) 0")
  case None
  then have "find (\<lambda>d. name d = nm) (planner_interfaces req) = None"
    by (rule found_loop_None_find)
  then have "spec_requested req nm = []"
    by (simp add: spec_requested_def)
  with assms None show ?thesis
    by (auto simp: candidate_of_def Let_def spec_algorithm_ids_def split: if_splits)
next
  case (Some f)
  from found_loop_Some [OF Some]
  have "find (\<lambda>d. name d = nm) (planner_interfaces req) = Some (planner_interfaces req ! f)"
    by auto
  then have r: "spec_requested req nm = planner_ids (planner_interfaces req ! f)"
    by (simp add: spec_requested_def)
  from assms Some show ?thesis
    by (auto simp: candidate_of_def Let_def spec_algorithm_ids_def r ids_loop_eq
        split: if_splits)
qed

lemma candidate_of_count:
  "candidate_of req (nm, pl) = Some c \<Longrightarrow>
     c_name c = nm \<and>
     c_average_count c =
       (case found_loop nm (planner_interfaces req) 0 of
          None \<Rightarrow> max 1 (default_average_count req)
        | Some f \<Rightarrow>
            if planner_ids (planner_interfaces req ! f) \<noteq> [] \<and> f < length (average_count req)
            then max 1 (average_count req ! f)
            else max 1 (default_average_count req))"
  by (cases "found_loop nm (planner_interfaces req) 0")
     (auto simp: candidate_of_def Let_def split: if_splits)

lemma candidate_of_Some_iff:
  "candidate_of req (nm, pl) \<noteq> None \<longleftrightarrow>
     (planner_interfaces req = [] \<or> nm \<in> name ` set (planner_interfaces req))
     \<and> canServiceRequest pl (motion_plan_request req)"
  using found_loop_None [of nm "planner_interfaces req" 0]
  by (cases "found_loop nm (planner_interfaces req) 0")
     (auto simp: candidate_of_def Let_def split: if_splits)

lemma registry_loop_empty_iff:
  "registry_loop req registry [] = [] \<longleftrightarrow>
     (\<forall>it \<in> set registry.
        \<not> ((planner_interfaces req = [] \<or> fst it \<in> name ` set (planner_interfaces req))
           \<and> canServiceRequest (snd it) (motion_plan_request req)))"
proof -
  have "(\<exists>c. c \<in> set (registry_loop req registry []))
      \<longleftrightarrow> (\<exists>it \<in> set registry. candidate_of req it \<noteq> None)"
    by (auto simp: set_registry_loop)
  then have "registry_loop req registry [] = []
      \<longleftrightarrow> (\<forall>it \<in> set registry. candidate_of req it = None)"
    by (cases "registry_loop req registry []") auto
  also have "\<dots> \<longleftrightarrow> (\<forall>it \<in> set registry.
        \<not> ((planner_interfaces req = [] \<or> fst it \<in> name ` set (planner_interfaces req))
           \<and> canServiceRequest (snd it) (motion_plan_request req)))"
    using candidate_of_Some_iff [of req] by (metis prod.collapse)
  finally show ?thesis .
qed

subsection \<open>The two ways out of computeBenchmark\<close>

lemma computeBenchmark_empty:
  "registry_loop req registry [] = [] \<Longrightarrow>
     computeBenchmark e registry req =
       \<lparr>returned = False, res_planner_interfaces = [], res_responses = [],
        res_filename = [], res_error_code = NOT_SET, file_written = None\<rparr>"
  by (simp add: computeBenchmark_def)

lemma computeBenchmark_nonempty:
  assumes "registry_loop req registry [] \<noteq> []"
  shows "returned (computeBenchmark e registry req)"
    and "res_error_code (computeBenchmark e registry req) = SUCCESS"
    and "res_filename (computeBenchmark e registry req) = report_name e req"
    and "file_written (computeBenchmark e registry req) =
          (if ofstream_open e (report_name e req)
           then Some (write_header e req (fst (totals_loop (registry_loop req registry []) (0, 0)))
                  @ write_planners (registry_loop req registry [])
                      (fst (planner_loop e (motion_plan_request req)
                             (registry_loop req registry []) (0, []))) 0)
           else None)"
    and "res_planner_interfaces (computeBenchmark e registry req)
           = map c_name (registry_loop req registry [])"
  using assms
  by (simp_all add: computeBenchmark_def Let_def case_prod_beta report_name_def)

lemma totals_loop_fst:
  "fst (totals_loop cs (a, b)) = a + sum_list (map (\<lambda>c. length (c_planner_ids c)) cs)"
  by (induction cs arbitrary: a b) auto

lemma length_group_names:
  "length (group_names cs) = sum_list (map (\<lambda>c. length (c_planner_ids c)) cs)"
  by (induction cs) (simp_all add: group_names_def)

lemma write_header_planners_line:
  "(write_header e req n @ rest) ! 9 = show_nat n @ '' planners''"
  by (simp add: write_header_def nth_append)

subsection \<open>The example requests\<close>

lemma cands_request_A: "registry_loop request_A test_registry [] = [cand_A [''x'', ''y''] 2]"
  by (simp add: test_registry_def request_A_def candidate_of_def Let_def planner_A_def
      planner_B_def test_problem_def cand_A_def)

lemma cands_request_ids:
  "registry_loop request_ids test_registry [] = [cand_A [''arm[y]'', ''x''] 3]"
  by (simp add: test_registry_def request_ids_def candidate_of_def Let_def planner_A_def
      planner_B_def test_problem_def cand_A_def)

lemma cands_request_all:
  "registry_loop request_all test_registry [] = [cand_A [''x'', ''y''] 2, cand_B]"
  by (simp add: test_registry_def request_all_def candidate_of_def Let_def planner_A_def
      planner_B_def test_problem_def cand_A_def cand_B_def)

lemma cands_request_none: "registry_loop request_none test_registry [] = []"
  by (simp add: test_registry_def request_none_def candidate_of_def Let_def planner_A_def
      planner_B_def test_problem_def)

lemma show_nat_digits: "show_nat (Suc 0) = ''1''" "show_nat 1 = ''1''" "show_nat 2 = ''2''"
  by (simp_all add: show_nat.simps)

lemma test_data_eq:
  "test_data =
     [[collectMetrics test_env [] test_response True 1,
       collectMetrics test_env [] test_response True 1],
      [collectMetrics test_env [] test_response False 1,
       collectMetrics test_env [] test_response False 1],
      [collectMetrics test_env [] test_response True 2,
       collectMetrics test_env [] test_response True 2]]"
  by (simp add: test_data_def cand_A_def cand_B_def numeral_2_eq_2 planner_A_def planner_B_def
      Let_def test_problem_def)

lemma unsolved_run:
  "collectMetrics e [] res False t =
     [(''solved BOOLEAN'', ''0''), (''total_time REAL'', lexical_cast_double e (Finite t))]"
  by (simp add: collectMetrics_def Let_def lexical_cast_bool_def)

subsection \<open>Algorithm ids\<close>

text \<open>
  C5. For every candidate planner the resolved list of algorithm ids is the list of all
  declared ids when the request names none for the planner; otherwise it is the list of
  the requested names, in the order of the request, that equal a declared id or
  \<open>group[id]\<close> for a declared id. A name that matches nothing is dropped, and the
  invocation does not fail for it: the planner stays a candidate and the call returns
  true.
\<close>

theorem algorithm_ids_resolved:
  assumes "c \<in> set (registry_loop req registry [])"
  shows "(c_name c, c_pi c) \<in> set registry
     \<and> c_planner_ids c
         = spec_algorithm_ids req (c_name c) (getPlanningAlgorithms (c_pi c))
     \<and> returned (computeBenchmark e registry req)"
proof -
  from assms obtain it where it: "it \<in> set registry" "candidate_of req it = Some c"
    by (auto simp: set_registry_loop)
  from candidate_of_ids [of req "fst it" "snd it" c] it
  have "c_name c = fst it" "c_pi c = snd it"
    "c_planner_ids c = spec_algorithm_ids req (fst it) (getPlanningAlgorithms (snd it))"
    by auto
  moreover from assms have "registry_loop req registry [] \<noteq> []"
    by auto
  then have "returned (computeBenchmark e registry req)"
    by (rule computeBenchmark_nonempty)
  ultimately show ?thesis
    using it by simp
qed

theorem algorithm_ids_resolved_witness:
  "cand_A [''arm[y]'', ''x''] 3 \<in> set (registry_loop request_ids test_registry [])
   \<and> spec_algorithm_ids request_ids ''A'' [''x'', ''y''] = [''arm[y]'', ''x'']
   \<and> returned (computeBenchmark test_env test_registry request_ids)"
  using algorithm_ids_resolved [of "cand_A [''arm[y]'', ''x''] 3" request_ids test_registry test_env]
  by (simp add: cands_request_ids cand_A_def planner_A_def)

subsection \<open>Repetitions\<close>

text \<open>
  C3, as the code has it. The repetitions of a candidate planner are the override of the
  request, raised to 1 when it is 0, only when the request names the planner with a
  non-empty list of algorithm ids and the list of overrides reaches the index of that
  entry; in every other case they are the default, raised to 1 when it is 0. They are
  at least 1 in all cases.
\<close>

theorem repetitions_resolved:
  assumes "c \<in> set (registry_loop req registry [])"
  shows "c_average_count c =
           (case found_loop (c_name c) (planner_interfaces req) 0 of
              None \<Rightarrow> max 1 (default_average_count req)
            | Some f \<Rightarrow>
                if planner_ids (planner_interfaces req ! f) \<noteq> []
                   \<and> f < length (average_count req)
                then max 1 (average_count req ! f)
                else max 1 (default_average_count req))
         \<and> 1 \<le> c_average_count c"
proof -
  from assms obtain it where it: "it \<in> set registry" "candidate_of req it = Some c"
    by (auto simp: set_registry_loop)
  from candidate_of_count [of req "fst it" "snd it" c] it
  show ?thesis
    by (auto split: option.splits)
qed

theorem repetitions_resolved_witness:
  "cand_A [''arm[y]'', ''x''] 3 \<in> set (registry_loop request_ids test_registry [])
   \<and> c_average_count (cand_A [''arm[y]'', ''x''] 3) = 3"
  using repetitions_resolved [of "cand_A [''arm[y]'', ''x''] 3" request_ids test_registry]
  by (simp add: cands_request_ids cand_A_def)

text \<open>
  The claim as the specification states it fails: the request names planner A without
  algorithm ids and overrides its repetitions with 5; the planner runs with the default 2.
\<close>

theorem repetitions_override_counterexample:
  "registry_loop request_A test_registry [] = [cand_A [''x'', ''y''] 2]
   \<and> c_average_count (cand_A [''x'', ''y''] 2) = 2
   \<and> spec_repetitions request_A (c_name (cand_A [''x'', ''y''] 2)) = 5"
  using cands_request_A by (simp add: cand_A_def spec_repetitions_def request_A_def)

subsection \<open>A report that cannot be written\<close>

text \<open>
  C9, as the code has it. The stream of the report is never tested: when the file
  cannot be opened nothing is written, and the call still returns true with the error
  code SUCCESS.
\<close>

theorem write_failure_not_detected:
  "registry_loop req registry [] \<noteq> [] \<Longrightarrow>
   \<not> ofstream_open e (res_filename (computeBenchmark e registry req)) \<Longrightarrow>
     returned (computeBenchmark e registry req)
     \<and> res_error_code (computeBenchmark e registry req) = SUCCESS
     \<and> file_written (computeBenchmark e registry req) = None"
  by (simp add: computeBenchmark_nonempty)

theorem write_failure_not_detected_witness:
  "registry_loop request_A test_registry [] \<noteq> []
   \<and> \<not> ofstream_open closed_env (res_filename (computeBenchmark closed_env test_registry request_A))
   \<and> returned (computeBenchmark closed_env test_registry request_A)
   \<and> file_written (computeBenchmark closed_env test_registry request_A) = None"
  using write_failure_not_detected [of request_A test_registry closed_env]
  by (simp add: cands_request_A closed_env_def)

text \<open>
  The claim as the specification states it fails: on the file system where no file
  opens, the call for planner A reports success.
\<close>

theorem write_failure_counterexample:
  "\<not> ofstream_open closed_env ''out.log''
   \<and> res_filename (computeBenchmark closed_env test_registry request_A) = ''out.log''
   \<and> file_written (computeBenchmark closed_env test_registry request_A) = None
   \<and> returned (computeBenchmark closed_env test_registry request_A)
   \<and> res_error_code (computeBenchmark closed_env test_registry request_A) = SUCCESS"
proof -
  have ne: "registry_loop request_A test_registry [] \<noteq> []"
    by (simp add: cands_request_A)
  have nm: "report_name closed_env request_A = ''out.log''"
    by (simp add: report_name_def request_A_def)
  have cl: "\<not> ofstream_open closed_env ''out.log''"
    by (simp add: closed_env_def)
  show ?thesis
    using cl by (simp add: computeBenchmark_nonempty [OF ne] nm)
qed

subsection \<open>The line of the planner count\<close>

text \<open>
  C6, as the code has it. The line \<open>n planners\<close> of a report states the number of
  (planner, algorithm) groups of the report, which is the sum over the tested planners
  of the numbers of their resolved algorithm ids.
\<close>

theorem planners_line_counts_groups:
  assumes "file_written (computeBenchmark e registry req) = Some out"
  shows "out ! 9
           = show_nat (length (group_names (registry_loop req registry []))) @ '' planners''
         \<and> length (group_names (registry_loop req registry []))
           = sum_list (map (\<lambda>c. length (c_planner_ids c)) (registry_loop req registry []))"
proof -
  have ne: "registry_loop req registry [] \<noteq> []"
    using assms by (auto simp: computeBenchmark_empty)
  from assms show ?thesis
    by (auto simp add: computeBenchmark_nonempty(4) [OF ne] totals_loop_fst length_group_names
        write_header_planners_line split: if_splits)
qed

theorem planners_line_counts_groups_witness:
  "file_written (computeBenchmark test_env test_registry request_A)
     = Some (the (file_written (computeBenchmark test_env test_registry request_A)))
   \<and> the (file_written (computeBenchmark test_env test_registry request_A)) ! 9 = ''2 planners''"
proof -
  have ne: "registry_loop request_A test_registry [] \<noteq> []"
    by (simp add: cands_request_A)
  have nm: "report_name test_env request_A = ''out.log''"
    by (simp add: report_name_def request_A_def)
  have op: "ofstream_open test_env ''out.log''"
    by (simp add: test_env_def)
  have w: "file_written (computeBenchmark test_env test_registry request_A)
     = Some (the (file_written (computeBenchmark test_env test_registry request_A)))"
    using op by (simp add: computeBenchmark_nonempty(4) [OF ne] nm)
  have g: "length (group_names (registry_loop request_A test_registry [])) = 2"
    by (simp add: cands_request_A group_names_def cand_A_def)
  show ?thesis
    using planners_line_counts_groups [OF w] w by (simp add: g show_nat_digits)
qed

text \<open>
  The claim as the specification states it fails: one planner is tested, with two
  algorithms, and the line reads \<open>2 planners\<close>.
\<close>

theorem planners_line_counterexample:
  "res_planner_interfaces (computeBenchmark test_env test_registry request_A) = [''A'']
   \<and> show_nat (length (res_planner_interfaces (computeBenchmark test_env test_registry request_A)))
       @ '' planners'' = ''1 planners''
   \<and> file_written (computeBenchmark test_env test_registry request_A) \<noteq> None
   \<and> the (file_written (computeBenchmark test_env test_registry request_A)) ! 9 = ''2 planners''"
proof -
  have ne: "registry_loop request_A test_registry [] \<noteq> []"
    by (simp add: cands_request_A)
  have nm: "report_name test_env request_A = ''out.log''"
    by (simp add: report_name_def request_A_def)
  have op: "ofstream_open test_env ''out.log''"
    by (simp add: test_env_def)
  have t: "fst (totals_loop (registry_loop request_A test_registry []) (0, 0)) = 2"
    by (simp add: cands_request_A cand_A_def)
  have pis: "res_planner_interfaces (computeBenchmark test_env test_registry request_A) = [''A'']"
    by (simp add: computeBenchmark_nonempty(5) [OF ne] cands_request_A cand_A_def)
  show ?thesis
    using op
    by (simp add: pis computeBenchmark_nonempty(4) [OF ne] nm t write_header_planners_line
        show_nat_digits)
qed


subsection \<open>The trial matrix\<close>

lemma repetition_loop_length: "length (fst (repetition_loop e p r n st)) = n"
proof (induction n arbitrary: st)
  case 0
  then show ?case by simp
next
  case (Suc n)
  then show ?case by (simp add: Let_def case_prod_beta)
qed

lemma repetition_loop_progress:
  "progress (snd (repetition_loop e p r n st)) = progress st + n"
proof (induction n arbitrary: st)
  case 0
  then show ?case by simp
next
  case (Suc n)
  then show ?case by (simp add: Let_def case_prod_beta)
qed

lemma algorithm_loop_lengths:
  "map length (fst (algorithm_loop e c r ids st)) = replicate (length ids) (c_average_count c)"
  by (induction ids arbitrary: st)
     (simp_all add: Let_def case_prod_beta repetition_loop_length)

lemma planner_loop_lengths: "map length (fst (planner_loop e r cs g)) = group_counts cs"
proof (induction cs arbitrary: g)
  case Nil
  then show ?case by (cases g) (simp add: group_counts_def)
next
  case (Cons c cs)
  obtain n res where g: "g = (n, res)"
    by (cases g)
  have gc: "group_counts (c # cs)
      = replicate (length (c_planner_ids c)) (c_average_count c) @ group_counts cs"
    by (simp add: group_counts_def)
  show ?case
    unfolding g gc
    by (simp add: Let_def case_prod_beta algorithm_loop_lengths Cons.IH)
qed

lemma length_group_counts: "length (group_counts cs) = length (group_names cs)"
  by (induction cs) (simp_all add: group_counts_def group_names_def)

subsection \<open>The properties of a group\<close>

lemma inner_fold_set:
  "set (fold (\<lambda>mit s. set_insert (fst mit) s) run s) = set s \<union> fst ` set run"
  by (induction run arbitrary: s) (auto simp: set_insert_def set_insort_insert)

lemma inner_fold_distinct:
  "distinct s \<Longrightarrow> distinct (fold (\<lambda>mit s. set_insert (fst mit) s) run s)"
  by (induction run arbitrary: s) (auto simp: set_insert_def distinct_insort_insert)

lemma outer_fold_set:
  "set (fold (\<lambda>run s. fold (\<lambda>mit s. set_insert (fst mit) s) run s) runs s)
     = set s \<union> (\<Union>run \<in> set runs. fst ` set run)"
  by (induction runs arbitrary: s) (auto simp: inner_fold_set)

lemma outer_fold_distinct:
  "distinct s \<Longrightarrow>
     distinct (fold (\<lambda>run s. fold (\<lambda>mit s. set_insert (fst mit) s) run s) runs s)"
  by (induction runs arbitrary: s) (auto simp: inner_fold_distinct)

lemma set_properties_of: "set (properties_of runs) = (\<Union>run \<in> set runs. fst ` set run)"
  by (simp add: properties_of_def outer_fold_set)

lemma distinct_properties_of: "distinct (properties_of runs)"
  by (simp add: properties_of_def outer_fold_distinct)

lemma length_properties_of:
  "length (properties_of runs) = card (\<Union>run \<in> set runs. fst ` set run)"
  using distinct_card [OF distinct_properties_of, of runs]
  by (simp add: set_properties_of)

lemma inner_fold_sorted:
  "sorted s \<Longrightarrow> sorted (fold (\<lambda>mit s. set_insert (fst mit) s) run s)"
  by (induction run arbitrary: s) (auto simp: set_insert_def sorted_insort_insert)

lemma outer_fold_sorted:
  "sorted s \<Longrightarrow>
     sorted (fold (\<lambda>run s. fold (\<lambda>mit s. set_insert (fst mit) s) run s) runs s)"
  by (induction runs arbitrary: s) (auto simp: inner_fold_sorted)

lemma sorted_properties_of: "sorted (properties_of runs)"
  by (simp add: properties_of_def outer_fold_sorted)

subsection \<open>The sections of the report\<close>

lemma write_group_lines:
  "write_group d a runs =
     [d @ ''_'' @ a, ''0 common properties'',
      show_nat (card (\<Union>rd \<in> set runs. fst ` set rd)) @ '' properties for each run'']
     @ properties_of runs
     @ [show_nat (length runs) @ '' runs'']
     @ map (\<lambda>run. concat (map (\<lambda>k. (case map_of run k of None \<Rightarrow> [] | Some v \<Rightarrow> v) @ ''; '')
              (properties_of runs))) runs
     @ [''.'']"
  by (simp add: write_group_def Let_def row_line_def row_fields_def find_key_def
      length_properties_of comp_def)


lemma write_ids_eq:
  "ri + length ids \<le> length data \<Longrightarrow>
   write_ids d ids data ri =
     (concat (map (\<lambda>(a, runs). write_group d a runs) (zip ids (drop ri data))),
      ri + length ids)"
proof (induction ids arbitrary: ri)
  case Nil
  then show ?case by simp
next
  case (Cons a ids)
  then have lt: "ri < length data" and le: "Suc ri + length ids \<le> length data"
    by simp_all
  have dr: "drop ri data = data ! ri # drop (Suc ri) data"
    using lt by (simp add: Cons_nth_drop_Suc)
  show ?case
    by (simp add: Cons.IH [OF le] dr)
qed

lemma zip_take_length: "zip xs (take (length xs) ys) = zip xs ys"
proof (induction xs arbitrary: ys)
  case Nil
  then show ?case by simp
next
  case (Cons x xs)
  then show ?case by (cases ys) simp_all
qed

lemma write_planners_eq:
  "ri + length (group_names cs) \<le> length data \<Longrightarrow>
   write_planners cs data ri =
     concat (map (\<lambda>((d, a), runs). write_group d a runs)
       (zip (group_names cs) (drop ri data)))"
proof (induction cs arbitrary: ri)
  case Nil
  then show ?case by (simp add: group_names_def)
next
  case (Cons c cs)
  let ?d = "getDescription (c_pi c)"
  let ?ids = "c_planner_ids c"
  have gn: "group_names (c # cs) = map (\<lambda>a. (?d, a)) ?ids @ group_names cs"
    by (simp add: group_names_def)
  from Cons.prems have le1: "ri + length ?ids \<le> length data"
    and le2: "(ri + length ?ids) + length (group_names cs) \<le> length data"
    by (simp_all add: gn)
  have z1: "zip (map (\<lambda>a. (?d, a)) ?ids) (take (length ?ids) (drop ri data))
      = map (\<lambda>(a, runs). ((?d, a), runs)) (zip ?ids (drop ri data))"
    by (simp add: zip_take_length zip_map1 split_def)
  have "zip (group_names (c # cs)) (drop ri data)
     = map (\<lambda>(a, runs). ((?d, a), runs)) (zip ?ids (drop ri data))
       @ zip (group_names cs) (drop (ri + length ?ids) data)"
    unfolding gn by (simp add: zip_append1 z1 add.commute split_def)
  then show ?case
    by (simp add: write_ids_eq [OF le1] Cons.IH [OF le2] split_def comp_def)
qed

lemma solved_run_1:
  "collectMetrics test_env [] test_response True 1
      = [(''path_plan_clearance REAL'', ''r''), (''path_plan_correct BOOLEAN'', ''1''),
         (''path_plan_length REAL'', ''r''), (''path_plan_smoothness REAL'', ''r''),
         (''path_plan_time REAL'', ''t''), (''process_time REAL'', ''r''),
         (''solved BOOLEAN'', ''1''), (''total_time REAL'', ''r'')]"
  by (simp add: collectMetrics_def Let_def test_response_def record_segment_def
        lexical_cast_bool_def segment_correct_def segment_length_def segment_clearance_def
        segment_smoothness_def fdiv_def test_env_def)

lemma unsolved_run_1:
  "collectMetrics test_env [] test_response False 1
      = [(''solved BOOLEAN'', ''0''), (''total_time REAL'', ''r'')]"
  by (simp add: unsolved_run test_env_def)

lemma mixed_data_eq:
  "mixed_data = [[collectMetrics test_env [] test_response True 1,
                  collectMetrics test_env [] test_response False 1]]"
  by (simp add: mixed_data_def cand_M_def numeral_2_eq_2 planner_M_def Let_def test_problem_def)

lemma mixed_properties:
  "properties_of [collectMetrics test_env [] test_response True 1,
                  collectMetrics test_env [] test_response False 1]
    = [''path_plan_clearance REAL'', ''path_plan_correct BOOLEAN'', ''path_plan_length REAL'',
       ''path_plan_smoothness REAL'', ''path_plan_time REAL'', ''process_time REAL'',
       ''solved BOOLEAN'', ''total_time REAL'']"
  by (simp add: solved_run_1 unsolved_run_1 properties_of_def set_insert_def insort_insert_key_def)

lemma show_nat_8: "show_nat 8 = ''8''"
  by (simp add: show_nat.simps)

text \<open>
  C4. Let \<open>data\<close> be the records of a run. There is one list of records for each
  (planner, algorithm) group, and the report is the sequence of the sections of the
  groups, each written from the records of its own group. The section of a group that
  ran with \<open>N\<close> repetitions consists of its three head lines, the properties of the
  group, the line \<open>N runs\<close>, exactly \<open>N\<close> run rows and the closing dot. The
  properties are the distinct keys of the records of the group, in order, so their
  number is the cardinality of the union of the keys. Every row prints, for each
  property in turn, the value of the record followed by a semicolon and a blank, and
  nothing but the semicolon and the blank when the record lacks the key; so all rows of
  a group have that same number of fields.
\<close>

theorem report_rows_and_columns:
  assumes "data = fst (planner_loop e r cands g)"
    and "ri < length (group_names cands)"
  shows "length data = length (group_names cands)
    \<and> write_planners cands data 0
        = concat (map (\<lambda>((d, a), runs). write_group d a runs) (zip (group_names cands) data))
    \<and> length (data ! ri) = group_counts cands ! ri
    \<and> sorted (properties_of (data ! ri)) \<and> distinct (properties_of (data ! ri))
    \<and> set (properties_of (data ! ri)) = (\<Union>rd \<in> set (data ! ri). fst ` set rd)
    \<and> length (properties_of (data ! ri)) = card (\<Union>rd \<in> set (data ! ri). fst ` set rd)
    \<and> write_group d a (data ! ri) =
         [d @ ''_'' @ a, ''0 common properties'',
          show_nat (card (\<Union>rd \<in> set (data ! ri). fst ` set rd)) @ '' properties for each run'']
         @ properties_of (data ! ri)
         @ [show_nat (group_counts cands ! ri) @ '' runs'']
         @ map (\<lambda>run. concat (map (\<lambda>k. (case map_of run k of None \<Rightarrow> [] | Some v \<Rightarrow> v) @ ''; '')
                  (properties_of (data ! ri)))) (data ! ri)
         @ [''.'']
    \<and> length (map (row_line (properties_of (data ! ri))) (data ! ri)) = group_counts cands ! ri
    \<and> (\<forall>run \<in> set (data ! ri).
          length (row_fields (properties_of (data ! ri)) run)
            = card (\<Union>rd \<in> set (data ! ri). fst ` set rd))"
proof -
  have ml: "map length data = group_counts cands"
    using assms(1) by (simp add: planner_loop_lengths)
  then have len: "length data = length (group_names cands)"
    by (metis length_map length_group_counts)
  then have wr: "write_planners cands data 0
      = concat (map (\<lambda>((d, a), runs). write_group d a runs) (zip (group_names cands) data))"
    using write_planners_eq [of 0 cands data] by simp
  have n: "length (data ! ri) = group_counts cands ! ri"
    using ml assms(2) len by (metis nth_map)
  have sec: "write_group d a (data ! ri) =
         [d @ ''_'' @ a, ''0 common properties'',
          show_nat (card (\<Union>rd \<in> set (data ! ri). fst ` set rd)) @ '' properties for each run'']
         @ properties_of (data ! ri)
         @ [show_nat (group_counts cands ! ri) @ '' runs'']
         @ map (\<lambda>run. concat (map (\<lambda>k. (case map_of run k of None \<Rightarrow> [] | Some v \<Rightarrow> v) @ ''; '')
                  (properties_of (data ! ri)))) (data ! ri)
         @ [''.'']"
    unfolding n [symmetric] by (rule write_group_lines)
  have rows: "length (map (row_line (properties_of (data ! ri))) (data ! ri))
      = group_counts cands ! ri"
    using n by simp
  have cols: "\<forall>run \<in> set (data ! ri). length (row_fields (properties_of (data ! ri)) run)
      = card (\<Union>rd \<in> set (data ! ri). fst ` set rd)"
    by (simp add: row_fields_def length_properties_of)
  from len wr n sec rows cols sorted_properties_of [of "data ! ri"]
    distinct_properties_of [of "data ! ri"] set_properties_of [of "data ! ri"]
    length_properties_of [of "data ! ri"]
  show ?thesis
    by (intro conjI)
qed

theorem report_rows_and_columns_witness:
  "mixed_data = fst (planner_loop test_env test_problem [cand_M] (0, []))
   \<and> 0 < length (group_names [cand_M])
   \<and> group_names [cand_M] = [(''M'', ''m'')]
   \<and> write_planners [cand_M] mixed_data 0 = write_group ''M'' ''m'' (mixed_data ! 0)
   \<and> write_group ''M'' ''m'' (mixed_data ! 0) =
       [''M_m'', ''0 common properties'', ''8 properties for each run'',
        ''path_plan_clearance REAL'', ''path_plan_correct BOOLEAN'', ''path_plan_length REAL'',
        ''path_plan_smoothness REAL'', ''path_plan_time REAL'', ''process_time REAL'',
        ''solved BOOLEAN'', ''total_time REAL'',
        ''2 runs'',
        ''r; 1; r; r; t; r; 1; r; '',
        ''; ; ; ; ; ; 0; r; '',
        ''.'']"
proof -
  have d: "mixed_data = fst (planner_loop test_env test_problem [cand_M] (0, []))"
    by (simp add: mixed_data_def)
  have gn: "group_names [cand_M] = [(''M'', ''m'')]"
    by (simp add: group_names_def cand_M_def planner_M_def)
  have l: "0 < length (group_names [cand_M])"
    by (simp add: gn)
  have gc: "group_counts [cand_M] ! 0 = 2"
    by (simp add: group_counts_def cand_M_def)
  note inst' = report_rows_and_columns [OF d l, of "''M''" "''m''"]
  have wp: "write_planners [cand_M] mixed_data 0
      = concat (map (\<lambda>((d, a), runs). write_group d a runs) (zip (group_names [cand_M]) mixed_data))"
    using inst' by (elim conjE)
  have card: "length (properties_of (mixed_data ! 0))
      = card (\<Union>rd \<in> set (mixed_data ! 0). fst ` set rd)"
    using inst' by (elim conjE)
  have sec: "write_group ''M'' ''m'' (mixed_data ! 0) =
         [''M'' @ ''_'' @ ''m'', ''0 common properties'',
          show_nat (card (\<Union>rd \<in> set (mixed_data ! 0). fst ` set rd)) @ '' properties for each run'']
         @ properties_of (mixed_data ! 0)
         @ [show_nat (group_counts [cand_M] ! 0) @ '' runs'']
         @ map (\<lambda>run. concat (map (\<lambda>k. (case map_of run k of None \<Rightarrow> [] | Some v \<Rightarrow> v) @ ''; '')
                  (properties_of (mixed_data ! 0)))) (mixed_data ! 0)
         @ [''.'']" (is "_ = ?R")
    using inst' by (elim conjE)
  have m0: "mixed_data ! 0 = [collectMetrics test_env [] test_response True 1,
                  collectMetrics test_env [] test_response False 1]"
    by (simp add: mixed_data_eq)
  have wp': "write_planners [cand_M] mixed_data 0 = write_group ''M'' ''m'' (mixed_data ! 0)"
    unfolding wp gn by (simp add: mixed_data_eq)
  have c8: "card (\<Union>rd \<in> set (mixed_data ! 0). fst ` set rd) = 8"
    unfolding card [symmetric] unfolding m0 mixed_properties by simp
  have ev: "?R =
       [''M_m'', ''0 common properties'', ''8 properties for each run'',
        ''path_plan_clearance REAL'', ''path_plan_correct BOOLEAN'', ''path_plan_length REAL'',
        ''path_plan_smoothness REAL'', ''path_plan_time REAL'', ''process_time REAL'',
        ''solved BOOLEAN'', ''total_time REAL'',
        ''2 runs'',
        ''r; 1; r; r; t; r; 1; r; '',
        ''; ; ; ; ; ; 0; r; '',
        ''.'']"
    unfolding c8 gc unfolding m0 mixed_properties
    by (simp add: show_nat_8 show_nat_digits solved_run_1 unsolved_run_1)
  have sec': "write_group ''M'' ''m'' (mixed_data ! 0) =
       [''M_m'', ''0 common properties'', ''8 properties for each run'',
        ''path_plan_clearance REAL'', ''path_plan_correct BOOLEAN'', ''path_plan_length REAL'',
        ''path_plan_smoothness REAL'', ''path_plan_time REAL'', ''process_time REAL'',
        ''solved BOOLEAN'', ''total_time REAL'',
        ''2 runs'',
        ''r; 1; r; r; t; r; 1; r; '',
        ''; ; ; ; ; ; 0; r; '',
        ''.'']"
    using sec ev by (rule trans)
  show ?thesis
    using d l gn wp' sec' by (intro conjI)
qed

subsection \<open>Trials that are not solved\<close>

text \<open>
  C1, as the code has it. The record of a trial whose solve fails holds exactly two
  properties, \<open>solved BOOLEAN\<close> with the value 0 and \<open>total_time REAL\<close> with the measured
  time; no other property, and so no quality metric, is recorded for it. The trials go
  on all the same: every repetition loop runs all of its \<open>n\<close> trials, and every group
  of the matrix gets as many records as its planner has repetitions, whatever the
  planners return.
\<close>

theorem unsolved_trial_record:
  "collectMetrics e [] res False t
     = [(''solved BOOLEAN'', ''0''), (''total_time REAL'', lexical_cast_double e (Finite t))]
   \<and> (k \<noteq> ''solved BOOLEAN'' \<and> k \<noteq> ''total_time REAL'' \<longrightarrow>
        find_key (collectMetrics e [] res False t) k = None)
   \<and> length (fst (repetition_loop e p r n st)) = n
   \<and> progress (snd (repetition_loop e p r n st)) = progress st + n
   \<and> map length (fst (planner_loop e r cands g)) = group_counts cands"
  by (simp add: unsolved_run find_key_def repetition_loop_length repetition_loop_progress
      planner_loop_lengths)

theorem unsolved_trial_record_witness:
  "collectMetrics test_env [] test_response False 1
     = [(''solved BOOLEAN'', ''0''), (''total_time REAL'', ''r'')]
   \<and> find_key (collectMetrics test_env [] test_response False 1) ''path_plan_length REAL'' = None
   \<and> map length test_data = [2, 2, 2]
   \<and> test_data ! 1 = [collectMetrics test_env [] test_response False 1,
                        collectMetrics test_env [] test_response False 1]"
proof -
  have gc: "group_counts [cand_A [''x'', ''y''] 2, cand_B] = [2, 2, 2]"
    by (simp add: group_counts_def cand_A_def cand_B_def numeral_2_eq_2)
  have d1: "test_data ! 1 = [collectMetrics test_env [] test_response False 1,
                        collectMetrics test_env [] test_response False 1]"
    by (simp add: test_data_eq)
  note inst = unsolved_trial_record [of test_env test_response 1 "''path_plan_length REAL''"
      planner_A test_problem 0 "\<lparr>progress = 0, mp_res = [], first = True, responses_i = []\<rparr>"
      "[cand_A [''x'', ''y''] 2, cand_B]" "(0, [])"]
  have u: "collectMetrics test_env [] test_response False 1
      = [(''solved BOOLEAN'', ''0''), (''total_time REAL'', lexical_cast_double test_env (Finite 1))]"
    using inst by (elim conjE)
  have c: "lexical_cast_double test_env (Finite 1) = ''r''"
    by (simp add: test_env_def)
  have k: "''path_plan_length REAL'' \<noteq> ''solved BOOLEAN''
      \<and> ''path_plan_length REAL'' \<noteq> ''total_time REAL'' \<longrightarrow>
      find_key (collectMetrics test_env [] test_response False 1) ''path_plan_length REAL'' = None"
    using inst by (elim conjE)
  have ml: "map length (fst (planner_loop test_env test_problem
      [cand_A [''x'', ''y''] 2, cand_B] (0, []))) = group_counts [cand_A [''x'', ''y''] 2, cand_B]"
    using inst by (elim conjE)
  have u': "collectMetrics test_env [] test_response False 1
      = [(''solved BOOLEAN'', ''0''), (''total_time REAL'', ''r'')]"
    using u c by simp
  have k': "find_key (collectMetrics test_env [] test_response False 1)
      ''path_plan_length REAL'' = None"
    using k by simp
  have ml': "map length test_data = [2, 2, 2]"
    using ml gc by (simp add: test_data_def)
  show ?thesis
    using u' k' ml' d1 by (intro conjI)
qed

text \<open>
  The claim as the specification states it fails: the record of the unsolved trial has
  the two keys above and no metric, so no metric is recorded with the value zero.
\<close>

theorem unsolved_trial_metrics_counterexample:
  "map fst (collectMetrics test_env [] test_response False 1)
     = [''solved BOOLEAN'', ''total_time REAL'']
   \<and> find_key (collectMetrics test_env [] test_response False 1) ''path_plan_length REAL''
       \<noteq> Some (lexical_cast_double test_env (Finite 0))
   \<and> find_key (collectMetrics test_env [] test_response False 1) ''path_plan_clearance REAL''
       \<noteq> Some (lexical_cast_double test_env (Finite 0))
   \<and> find_key (collectMetrics test_env [] test_response False 1) ''path_plan_smoothness REAL''
       \<noteq> Some (lexical_cast_double test_env (Finite 0))"
  by (simp add: unsolved_run find_key_def)


subsection \<open>An empty set of candidates\<close>

lemma sum_list_group_counts:
  "sum_list (group_counts cs) = sum_list (map (\<lambda>c. length (c_planner_ids c) * c_average_count c) cs)"
  by (induction cs) (simp_all add: group_counts_def sum_list_replicate)

lemma planner_loop_trials:
  "length (concat (fst (planner_loop e r cs g)))
     = sum_list (map (\<lambda>c. length (c_planner_ids c) * c_average_count c) cs)"
  by (simp add: length_concat planner_loop_lengths sum_list_group_counts)

lemma registry_loop_count_pos:
  assumes "c \<in> set (registry_loop req registry [])"
  shows "1 \<le> c_average_count c"
proof -
  from assms obtain it where it: "it \<in> set registry" "candidate_of req it = Some c"
    by (auto simp: set_registry_loop)
  from candidate_of_count [of req "fst it" "snd it" c] it
  show ?thesis
    by (auto split: option.splits)
qed

lemma no_trials_iff:
  assumes "\<forall>c \<in> set cs. 1 \<le> c_average_count c"
  shows "concat (fst (planner_loop e r cs g)) = [] \<longleftrightarrow> (\<forall>c \<in> set cs. c_planner_ids c = [])"
proof -
  have "concat (fst (planner_loop e r cs g)) = []
      \<longleftrightarrow> sum_list (map (\<lambda>c. length (c_planner_ids c) * c_average_count c) cs) = 0"
    using planner_loop_trials [of e r cs g] by (metis length_0_conv)
  also have "\<dots> \<longleftrightarrow> (\<forall>c \<in> set cs. length (c_planner_ids c) * c_average_count c = 0)"
    by (auto simp: sum_list_eq_0_iff)
  also have "\<dots> \<longleftrightarrow> (\<forall>c \<in> set cs. c_planner_ids c = [])"
    using assms by (metis length_0_conv mult_eq_0_iff not_one_le_zero mult_0)
  finally show ?thesis .
qed

lemma cands_request_w: "registry_loop request_w test_registry [] = [cand_A [] 1]"
  by (simp add: test_registry_def request_w_def candidate_of_def Let_def planner_A_def
      planner_B_def test_problem_def cand_A_def)

lemma no_trials_request_w:
  "concat (fst (planner_loop test_env (motion_plan_request request_w) [cand_A [] 1] (0, []))) = []"
  by (simp add: cand_A_def Let_def)

text \<open>
  C8, as the code has it. When no planner is left after the filter of the request and
  the capability probe, the call returns false, writes no file and leaves the error
  code unset; and this is the only case in which the call returns false. It is not the
  only case in which no trial runs: the number of trials is the sum, over the
  candidates, of the number of resolved algorithm ids times the repetitions, so a call
  whose candidates all have an empty list of algorithm ids runs no trial, and it
  returns true.
\<close>

theorem empty_candidates_fail:
  "(registry_loop req registry [] = [] \<longrightarrow>
      \<not> returned (computeBenchmark e registry req)
      \<and> file_written (computeBenchmark e registry req) = None
      \<and> res_error_code (computeBenchmark e registry req) = NOT_SET)
   \<and> (\<not> returned (computeBenchmark e registry req) \<longleftrightarrow> registry_loop req registry [] = [])
   \<and> (registry_loop req registry [] = [] \<longleftrightarrow>
        (\<forall>it \<in> set registry.
           \<not> ((planner_interfaces req = [] \<or> fst it \<in> name ` set (planner_interfaces req))
              \<and> canServiceRequest (snd it) (motion_plan_request req))))
   \<and> length (concat (fst (planner_loop e (motion_plan_request req)
                (registry_loop req registry []) (0, []))))
       = sum_list (map (\<lambda>c. length (c_planner_ids c) * c_average_count c)
           (registry_loop req registry []))
   \<and> (concat (fst (planner_loop e (motion_plan_request req)
                (registry_loop req registry []) (0, []))) = []
        \<longleftrightarrow> (\<forall>c \<in> set (registry_loop req registry []). c_planner_ids c = []))"
proof -
  have a: "(registry_loop req registry [] = [] \<longrightarrow>
      \<not> returned (computeBenchmark e registry req)
      \<and> file_written (computeBenchmark e registry req) = None
      \<and> res_error_code (computeBenchmark e registry req) = NOT_SET)
   \<and> (\<not> returned (computeBenchmark e registry req) \<longleftrightarrow> registry_loop req registry [] = [])"
    using computeBenchmark_nonempty(1) [of req registry e]
    by (auto simp add: computeBenchmark_empty)
  have p: "\<forall>c \<in> set (registry_loop req registry []). 1 \<le> c_average_count c"
    using registry_loop_count_pos by blast
  from a registry_loop_empty_iff [of req registry]
    planner_loop_trials [of e "motion_plan_request req" "registry_loop req registry []" "(0, [])"]
    no_trials_iff [OF p, of e "motion_plan_request req" "(0, [])"]
  show ?thesis
    by (intro conjI) (elim conjE, assumption)+
qed

theorem empty_candidates_fail_witness:
  "registry_loop request_none test_registry [] = []
   \<and> \<not> returned (computeBenchmark test_env test_registry request_none)
   \<and> file_written (computeBenchmark test_env test_registry request_none) = None
   \<and> registry_loop request_A test_registry [] \<noteq> []
   \<and> returned (computeBenchmark test_env test_registry request_A)
   \<and> length (concat (fst (planner_loop test_env (motion_plan_request request_A)
        (registry_loop request_A test_registry []) (0, [])))) = 4
   \<and> map c_planner_ids (registry_loop request_w test_registry []) = [[]]
   \<and> concat (fst (planner_loop test_env (motion_plan_request request_w)
        (registry_loop request_w test_registry []) (0, []))) = []"
  using empty_candidates_fail [of request_none test_registry test_env]
    empty_candidates_fail [of request_A test_registry test_env]
    empty_candidates_fail [of request_w test_registry test_env]
  by (simp add: cands_request_none cands_request_A cands_request_w cand_A_def)

text \<open>
  The claim as the specification states it fails: the request names planner A with the
  one unknown id w; the planner is a candidate, no trial runs, and the call succeeds.
\<close>

theorem no_trials_counterexample:
  "registry_loop request_w test_registry [] = [cand_A [] 1]
   \<and> concat (fst (planner_loop test_env (motion_plan_request request_w)
        (registry_loop request_w test_registry []) (0, []))) = []
   \<and> returned (computeBenchmark test_env test_registry request_w)
   \<and> res_error_code (computeBenchmark test_env test_registry request_w) = SUCCESS"
proof -
  have ne: "registry_loop request_w test_registry [] \<noteq> []"
    by (simp add: cands_request_w)
  show ?thesis
    using no_trials_request_w
    by (simp add: computeBenchmark_nonempty(1,2) [OF ne] cands_request_w)
qed

end
